theory Spec2Isabelle
  imports Complex_Main "HOL-Library.Sublist"
begin

section \<open>Python values used by the scoring metrics\<close>

text \<open>
  The metrics of \<^verbatim>\<open>quality_tracking_example.py\<close> work on Python \<^verbatim>\<open>str\<close> values and
  return Python floats (or \<^verbatim>\<open>None\<close>).

  \<^item> A \<^verbatim>\<open>str\<close> is modelled as a \<open>string\<close>, each \<open>char\<close> standing for the code point
    of the same number (0 to 255). On that range \<^verbatim>\<open>str.lower\<close>, \<^verbatim>\<open>str.isupper\<close> and
    \<^verbatim>\<open>str.isspace\<close> act character by character, as written below; code points from
    256 on are outside the model.
  \<^item> A float is modelled as a \<open>real\<close>: every number the metrics compute is a quotient
    of two lengths or a multiple of one quarter, and rounding is not modelled.
  \<^item> An optional argument (\<^verbatim>\<open>reference: str = None\<close>) is a \<open>string option\<close>.
  \<^item> An exception is a value \<open>Inl e\<close> of the result type \<open>py_error + 'a\<close>.
\<close>

datatype py_error = ZeroDivisionError | IndexError

text \<open>\<^verbatim>\<open>a / b\<close> on two integers: true division, which raises on a zero divisor.\<close>

definition py_truediv :: "int \<Rightarrow> int \<Rightarrow> py_error + real" where
  "py_truediv a b = (if b = 0 then Inl ZeroDivisionError else Inr (real_of_int a / real_of_int b))"

text \<open>\<^verbatim>\<open>s[0]\<close>, which raises on the empty string.\<close>

definition py_getitem0 :: "string \<Rightarrow> py_error + char" where
  "py_getitem0 s = (case s of [] \<Rightarrow> Inl IndexError | c # _ \<Rightarrow> Inr c)"

text \<open>
  Character classes of the code points below 256. Whitespace is TAB to CR (9 to 13), the
  separators FS to US (28 to 31), the space (32), NEL (133) and the no-break space (160).
  The upper-case letters are A to Z and the Latin-1 capitals 192 to 222 without the
  multiplication sign 215; each has its lower-case letter 32 code points later.
\<close>

definition isspace_ch :: "char \<Rightarrow> bool" where
  "isspace_ch c = (let n = (of_char c :: nat) in
     (9 \<le> n \<and> n \<le> 13) \<or> (28 \<le> n \<and> n \<le> 32) \<or> n = 133 \<or> n = 160)"

definition isupper_ch :: "char \<Rightarrow> bool" where
  "isupper_ch c = (let n = (of_char c :: nat) in
     (65 \<le> n \<and> n \<le> 90) \<or> (192 \<le> n \<and> n \<le> 222 \<and> n \<noteq> 215))"

definition lower_ch :: "char \<Rightarrow> char" where
  "lower_ch c = (if isupper_ch c then char_of ((of_char c :: nat) + 32) else c)"

text \<open>\<^verbatim>\<open>s.lower()\<close>\<close>

definition py_lower :: "string \<Rightarrow> string" where
  "py_lower s = map lower_ch s"

text \<open>
  \<^verbatim>\<open>s.split()\<close> with no separator: the maximal runs of non-whitespace characters, in
  order. \<open>split_ws cur s\<close> scans \<open>s\<close> with the word read so far in \<open>cur\<close>.
\<close>

fun split_ws :: "string \<Rightarrow> string \<Rightarrow> string list" where
  "split_ws cur [] = (if cur = [] then [] else [cur])"
| "split_ws cur (c # cs) =
     (if isspace_ch c then (if cur = [] then split_ws [] cs else cur # split_ws [] cs)
      else split_ws (cur @ [c]) cs)"

definition py_split :: "string \<Rightarrow> string list" where
  "py_split s = split_ws [] s"

text \<open>\<^verbatim>\<open>sub in s\<close> on strings: \<open>sub\<close> occurs in \<open>s\<close> as a contiguous block.\<close>

fun py_contains :: "string \<Rightarrow> string \<Rightarrow> bool" where
  "py_contains sub [] = (sub = [])"
| "py_contains sub (c # cs) = (prefix sub (c # cs) \<or> py_contains sub cs)"

text \<open>\<^verbatim>\<open>s.count(c)\<close> for a one-character \<open>c\<close>.\<close>

definition py_count :: "string \<Rightarrow> char \<Rightarrow> int" where
  "py_count s c = int (length (filter (\<lambda>x. x = c) s))"

text \<open>\<^verbatim>\<open>len(s)\<close>\<close>

definition py_len :: "'a list \<Rightarrow> int" where
  "py_len xs = int (length xs)"

section \<open>The metrics\<close>

subsection \<open>Accuracy\<close>

text \<open>
  \<^verbatim>\<open>
  def score(self, output: str, expected_answer: str = None, **kwargs):
      if not expected_answer:
          return None  # Can't score without ground truth
      expected_keywords = expected_answer.lower().split()
      output_lower = output.lower()
      matches = sum(1 for keyword in expected_keywords if keyword in output_lower)
      return matches / len(expected_keywords) if expected_keywords else 0.0
  \<close>
  The result is \<open>Inr None\<close> for \<^verbatim>\<open>None\<close>, \<open>Inr (Some v)\<close> for the float \<open>v\<close>.
\<close>

definition Accuracy_score :: "string \<Rightarrow> string option \<Rightarrow> py_error + real option" where
  "Accuracy_score output expected_answer =
     (case expected_answer of
        None \<Rightarrow> Inr None
      | Some ea \<Rightarrow>
          if ea = [] then Inr None
          else
            let expected_keywords = py_split (py_lower ea);
                output_lower = py_lower output;
                matches = sum_list (map (\<lambda>keyword. (1::int))
                            (filter (\<lambda>keyword. py_contains keyword output_lower) expected_keywords))
            in if expected_keywords \<noteq> []
               then (case py_truediv matches (py_len expected_keywords) of
                       Inl e \<Rightarrow> Inl e
                     | Inr q \<Rightarrow> Inr (Some q))
               else Inr (Some 0))"

subsection \<open>ResponseQuality\<close>

text \<open>
  \<^verbatim>\<open>
  def score(self, output: str, reference: str = None, **kwargs):
      score = 0.0
      if len(output) > 50:
          score += 0.25
      if reference and any(word.lower() in output.lower() for word in reference.split()):
          score += 0.25
      if output.count('.') >= 1 and output.count(' ') >= 5:
          score += 0.25
      if output and output[0].isupper():
          score += 0.25
      return score
  \<close>
  \<^verbatim>\<open>reference and ...\<close> is false for \<^verbatim>\<open>None\<close> and for the empty string;
  \<^verbatim>\<open>output and output[0].isupper()\<close> reads \<^verbatim>\<open>output[0]\<close> only when \<open>output\<close> is
  not empty.
\<close>

definition ResponseQuality_score :: "string \<Rightarrow> string option \<Rightarrow> py_error + real" where
  "ResponseQuality_score output reference =
     (let score = (0::real);
          score = (if py_len output > 50 then score + 0.25 else score);
          score = (if (case reference of
                         None \<Rightarrow> False
                       | Some r \<Rightarrow> r \<noteq> [] \<and>
                           list_ex (\<lambda>word. py_contains (py_lower word) (py_lower output)) (py_split r))
                   then score + 0.25 else score);
          score = (if py_count output (CHR ''.'') \<ge> 1 \<and> py_count output (CHR '' '') \<ge> 5
                   then score + 0.25 else score)
      in if output \<noteq> []
         then (case py_getitem0 output of
                 Inl e \<Rightarrow> Inl e
               | Inr c \<Rightarrow> Inr (if isupper_ch c then score + 0.25 else score))
         else Inr score)"

subsection \<open>Relevance\<close>

text \<open>
  \<^verbatim>\<open>
  def score(self, output: str, input: str = None, **kwargs):
      if not input:
          return 0.0
      question_words = set(input.lower().split())
      answer_words = set(output.lower().split())
      common_words = question_words.intersection(answer_words)
      relevance_score = len(common_words) / len(question_words) if question_words else 0.0
      return min(relevance_score, 1.0)
  \<close>
\<close>

definition Relevance_score :: "string \<Rightarrow> string option \<Rightarrow> py_error + real" where
  "Relevance_score output input =
     (case input of
        None \<Rightarrow> Inr 0
      | Some inp \<Rightarrow>
          if inp = [] then Inr 0
          else
            let question_words = set (py_split (py_lower inp));
                answer_words = set (py_split (py_lower output));
                common_words = question_words \<inter> answer_words
            in case (if question_words \<noteq> {}
                     then py_truediv (int (card common_words)) (int (card question_words))
                     else Inr 0) of
                 Inl e \<Rightarrow> Inl e
               | Inr relevance_score \<Rightarrow> Inr (min relevance_score 1))"

subsection \<open>Conciseness\<close>

text \<open>
  \<^verbatim>\<open>
  def __init__(self, name="conciseness", ideal_length=200):
      super().__init__(name=name)
      self.ideal_length = ideal_length

  def score(self, output: str, **kwargs):
      length = len(output)
      if length <= self.ideal_length:
          return 1.0
      else:
          excess = length - self.ideal_length
          penalty = min(excess / self.ideal_length, 1.0)
          return max(0.0, 1.0 - penalty)
  \<close>
  The object is a record of its two attributes; the base class initialiser stores the
  name. The constructor has a result of type \<open>py_error + conciseness\<close>, so that a
  rejected configuration would be a value \<open>Inl e\<close>.
\<close>

record conciseness =
  metric_name :: string
  ideal_length :: int

definition Conciseness_init :: "string \<Rightarrow> int \<Rightarrow> py_error + conciseness" where
  "Conciseness_init name ideal = Inr \<lparr>metric_name = name, ideal_length = ideal\<rparr>"

definition Conciseness_default :: "py_error + conciseness" where
  "Conciseness_default = Conciseness_init ''conciseness'' 200"

definition Conciseness_score :: "conciseness \<Rightarrow> string \<Rightarrow> py_error + real" where
  "Conciseness_score self output =
     (let length = py_len output
      in if length \<le> ideal_length self then Inr 1
         else
           let excess = length - ideal_length self
           in case py_truediv excess (ideal_length self) of
                Inl e \<Rightarrow> Inl e
              | Inr q \<Rightarrow> (let penalty = min q 1 in Inr (max 0 (1 - penalty))))"

section \<open>The health check of the REST demo\<close>

text \<open>
  \<^verbatim>\<open>
  OPIK_URL = "http://localhost:5173/api"

  def check_opik_health():
      try:
          response = requests.get(f"{OPIK_URL}/health", timeout=5)
          return response.status_code == 200
      except:
          return False
  \<close>
  The HTTP library is the parameter \<open>requests_get\<close>: called with the URL and the
  timeout, it gives a response or raises an exception \<open>e\<close> (the value \<open>Inl e\<close>) of any
  type \<open>'e\<close>, since the bare \<^verbatim>\<open>except:\<close> catches every exception.
\<close>

record http_response =
  status_code :: int

definition OPIK_URL :: string where
  "OPIK_URL = ''http://localhost:5173/api''"

definition check_opik_health :: "(string \<Rightarrow> nat \<Rightarrow> 'e + http_response) \<Rightarrow> 'e + bool" where
  "check_opik_health requests_get =
     (case requests_get (OPIK_URL @ ''/health'') 5 of
        Inl e \<Rightarrow> Inr False
      | Inr response \<Rightarrow> Inr (status_code response = 200))"

section \<open>The model caller\<close>

text \<open>
  \<^verbatim>\<open>
  def call_your_model(question: str) -> str:
      headers = {
          "Authorization": f"Bearer {MODEL_BEARER_TOKEN}",
          "Content-Type": "application/json"
      }
      payload = {
          "messages": [{"role": "user", "content": question}],
          "temperature": 0.7
      }
      response = requests.post(MODEL_URL, json=payload, headers=headers)
      response.raise_for_status()
      return response.json()["choices"][0]["message"]["content"]
  \<close>
  The values that travel as JSON (the payload, the decoded body of the response) are
  \<open>json_value\<close>s; a dictionary is the list of its items, its keys distinct, read with
  \<open>map_of\<close>.

  The HTTP library is a parameter, as for the health check. \<open>requests_post\<close> takes the
  request and gives a response or raises; the response carries, beside its status, what
  its two methods do when called: \<open>raise_for_status\<close> raises the exception it holds, if
  any, and \<open>json\<close> gives the decoded body or raises. The exceptions of the library are of
  any type \<open>'e\<close>; the subscripts of the last line raise Python's own
  \<^verbatim>\<open>KeyError\<close>, \<^verbatim>\<open>IndexError\<close> and \<^verbatim>\<open>TypeError\<close>.

  The function has the result and the list of the requests it has sent.
\<close>

datatype json_value =
  JNull | JBool bool | JNum real | JStr string | JArr "json_value list"
  | JObj "(string \<times> json_value) list"










section \<open>The metrics as the specification words them\<close>

text \<open>
  The definitions of this section follow the sentences of the specification, not the
  code; the theorems below compare the code with them. They are phrased with the
  library's notions: \<open>sublist\<close> for substring containment, \<open>count_list\<close> for the
  number of occurrences, sets of words and their cardinality.
\<close>

text \<open>The lowercased whitespace-word set of a string.\<close>

definition word_set :: "string \<Rightarrow> string set" where
  "word_set s = py_lower ` set (py_split s)"

text \<open>
  ResponseQuality: the sum of four independent increments of one quarter, for the length,
  for a reference word found in the output, for a full stop with five spaces, and for an
  upper-case first character.
\<close>

definition ResponseQuality_spec :: "string \<Rightarrow> string option \<Rightarrow> real" where
  "ResponseQuality_spec output reference =
     (if length output > 50 then 0.25 else 0) +
     (if \<exists>r. reference = Some r \<and>
            (\<exists>word \<in> set (py_split r). sublist (py_lower word) (py_lower output))
      then 0.25 else 0) +
     (if count_list output (CHR ''.'') \<ge> 1 \<and> count_list output (CHR '' '') \<ge> 5
      then 0.25 else 0) +
     (case output of [] \<Rightarrow> 0 | c # _ \<Rightarrow> if isupper_ch c then 0.25 else 0)"

text \<open>
  Relevance: the share of the input's words that are words of the output, at most 1, and
  0 when the input is absent or has no word.
\<close>

definition Relevance_spec :: "string \<Rightarrow> string option \<Rightarrow> real" where
  "Relevance_spec output input =
     (case input of
        None \<Rightarrow> 0
      | Some inp \<Rightarrow>
          if word_set inp = {} then 0
          else min (real (card (word_set inp \<inter> word_set output)) / real (card (word_set inp))) 1)"

text \<open>
  Conciseness, as a function of the ideal length and of the length \<open>n\<close> of the output.
\<close>

definition Conciseness_spec :: "int \<Rightarrow> int \<Rightarrow> real" where
  "Conciseness_spec ideal n =
     (if n \<le> ideal then 1
      else max 0 (1 - min (real_of_int (n - ideal) / real_of_int ideal) 1))"

text \<open>
  Accuracy: the fraction of the lowercased whitespace-split tokens of the expected answer
  that occur in the lowercased output. Where there is no token at all the fraction is
  taken to be 0.
\<close>

definition Accuracy_fraction :: "string \<Rightarrow> string \<Rightarrow> real" where
  "Accuracy_fraction output ea =
     (let tokens = map py_lower (py_split ea)
      in if tokens = [] then 0
         else real (length (filter (\<lambda>t. sublist t (py_lower output)) tokens)) / real (length tokens))"

subsection \<open>The model caller\<close>



section \<open>Facts about the string operations\<close>

text \<open>Membership \<^verbatim>\<open>sub in s\<close> is the contiguous-sublist relation of the library.\<close>

lemma py_contains_sublist: "py_contains sub s = sublist sub s"
  by (induction s) (simp_all add: sublist_Cons_right)

lemma split_ws_no_empty: "[] \<notin> set (split_ws cur s)"
  by (induction s arbitrary: cur) auto

lemma split_ws_Nil_iff: "split_ws cur s = [] \<longleftrightarrow> cur = [] \<and> list_all isspace_ch s"
  by (induction s arbitrary: cur) auto

lemma py_split_Nil_iff: "py_split s = [] \<longleftrightarrow> list_all isspace_ch s"
  by (simp add: py_split_def split_ws_Nil_iff)

lemma isupper_not_space: "isupper_ch c \<Longrightarrow> \<not> isspace_ch c"
  by (auto simp: isupper_ch_def isspace_ch_def Let_def)

lemma isspace_lower_ch: "isspace_ch (lower_ch c) = isspace_ch c"
proof (cases "isupper_ch c")
  case False
  then show ?thesis by (simp add: lower_ch_def)
next
  case True
  then have "(of_char c :: nat) + 32 < 256" and "65 \<le> (of_char c :: nat)"
    by (auto simp: isupper_ch_def Let_def)
  then have "\<not> isspace_ch (char_of ((of_char c :: nat) + 32))"
    using True by (auto simp: isspace_ch_def isupper_ch_def Let_def)
  with True isupper_not_space show ?thesis by (simp add: lower_ch_def)
qed

lemma split_ws_lower:
  "split_ws (map lower_ch cur) (map lower_ch s) = map (map lower_ch) (split_ws cur s)"
proof (induction s arbitrary: cur)
  case Nil
  then show ?case by simp
next
  case (Cons c cs)
  have nil: "split_ws [] (map lower_ch cs) = map (map lower_ch) (split_ws [] cs)"
    using Cons.IH [of "[]"] by simp
  have snoc: "split_ws (map lower_ch cur @ [lower_ch c]) (map lower_ch cs) =
      map (map lower_ch) (split_ws (cur @ [c]) cs)"
    using Cons.IH [of "cur @ [c]"] by simp
  show ?case by (simp add: isspace_lower_ch nil snoc)
qed

lemma py_split_lower: "py_split (py_lower s) = map py_lower (py_split s)"
proof -
  have "py_lower = map lower_ch" by (rule ext) (simp add: py_lower_def)
  have "split_ws [] (map lower_ch s) = map (map lower_ch) (split_ws [] s)"
    using split_ws_lower [of "[]" s] by simp
  then show ?thesis unfolding py_split_def \<open>py_lower = map lower_ch\<close> .
qed

lemma py_lower_Nil_iff: "py_lower w = [] \<longleftrightarrow> w = []"
  by (simp add: py_lower_def)

lemma sum_ones_filter:
  "sum_list (map (\<lambda>x. (1::int)) (filter P xs)) = int (length (filter P xs))"
  by (induction xs) auto

section \<open>The code computes what the specification words\<close>

subsection \<open>Accuracy\<close>

lemma Accuracy_score_Some:
  assumes "ea \<noteq> []"
  shows "Accuracy_score output (Some ea) = Inr (Some (Accuracy_fraction output ea))"
  using assms
  by (simp add: Accuracy_score_def Accuracy_fraction_def Let_def py_truediv_def py_len_def
      sum_ones_filter py_split_lower py_contains_sublist)

lemma Accuracy_fraction_range: "0 \<le> Accuracy_fraction output ea \<and> Accuracy_fraction output ea \<le> 1"
proof -
  have "length (filter P xs) \<le> length xs" for P and xs :: "string list"
    by simp
  then show ?thesis
    by (simp add: Accuracy_fraction_def Let_def divide_le_eq)
qed

subsection \<open>ResponseQuality\<close>

lemma py_count_count_list: "py_count s c = int (count_list s c)"
  by (induction s) (auto simp: py_count_def)

lemma py_split_Nil: "py_split [] = []"
  by (simp add: py_split_def)

lemma reference_test:
  "(case reference of None \<Rightarrow> False
    | Some r \<Rightarrow> r \<noteq> [] \<and> list_ex (\<lambda>word. py_contains (py_lower word) (py_lower output)) (py_split r))
   \<longleftrightarrow> (\<exists>r. reference = Some r \<and>
            (\<exists>word \<in> set (py_split r). sublist (py_lower word) (py_lower output)))"
proof (cases reference)
  case None
  then show ?thesis by simp
next
  case (Some r)
  then show ?thesis
    by (cases "r = []") (auto simp: py_split_Nil list_ex_iff py_contains_sublist)
qed

lemma ResponseQuality_score_spec:
  "ResponseQuality_score output reference = Inr (ResponseQuality_spec output reference)"
proof (cases "output")
  case Nil
  then show ?thesis
    unfolding ResponseQuality_score_def ResponseQuality_spec_def Let_def reference_test
    by (simp add: py_len_def py_count_count_list)
next
  case (Cons c cs)
  then show ?thesis
    unfolding ResponseQuality_score_def ResponseQuality_spec_def Let_def reference_test
    by (simp add: py_len_def py_count_count_list py_getitem0_def)
qed

lemma ResponseQuality_spec_range:
  "0 \<le> ResponseQuality_spec output reference \<and> ResponseQuality_spec output reference \<le> 1"
  by (simp add: ResponseQuality_spec_def split: list.split)

lemma ResponseQuality_spec_empty: "ResponseQuality_spec [] reference = 0"
proof -
  have "\<not> sublist (py_lower word) (py_lower [])" if "word \<in> set (py_split r)" for word r
  proof -
    from that have "word \<noteq> []"
      using split_ws_no_empty [of "[]" r] by (auto simp: py_split_def)
    then show ?thesis by (simp add: py_lower_def)
  qed
  then show ?thesis by (auto simp: ResponseQuality_spec_def)
qed

subsection \<open>Relevance\<close>

lemma set_split_lower: "set (py_split (py_lower s)) = word_set s"
  by (simp add: py_split_lower word_set_def)

lemma word_set_Nil: "word_set [] = {}"
  by (simp add: word_set_def py_split_def)

lemma finite_word_set: "finite (word_set s)"
  by (simp add: word_set_def)

lemma Relevance_score_spec:
  "Relevance_score output input = Inr (Relevance_spec output input)"
proof (cases input)
  case None
  then show ?thesis by (simp add: Relevance_score_def Relevance_spec_def)
next
  case (Some inp)
  show ?thesis
  proof (cases "word_set inp = {}")
    case True
    then show ?thesis
      using Some by (simp add: Relevance_score_def Relevance_spec_def set_split_lower Let_def)
  next
    case False
    then have "inp \<noteq> []" using word_set_Nil by auto
    moreover from False have "card (word_set inp) \<noteq> 0"
      by (simp add: finite_word_set)
    ultimately show ?thesis
      using Some False
      by (simp add: Relevance_score_def Relevance_spec_def set_split_lower Let_def py_truediv_def)
  qed
qed

subsection \<open>Conciseness\<close>

lemma Conciseness_score_spec:
  "ideal_length self \<noteq> 0 \<Longrightarrow>
   Conciseness_score self output = Inr (Conciseness_spec (ideal_length self) (py_len output))"
  by (simp add: Conciseness_score_def Conciseness_spec_def Let_def py_truediv_def)

lemma Conciseness_spec_beyond:
  assumes "0 < ideal" and "ideal \<le> n"
  shows "Conciseness_spec ideal n = max 0 (2 - real_of_int n / real_of_int ideal)"
proof (cases "n = ideal")
  case True
  with assms show ?thesis by (simp add: Conciseness_spec_def)
next
  case False
  with assms have "ideal < n" by simp
  with assms have "0 \<le> real_of_int (n - ideal) / real_of_int ideal" by simp
  with assms \<open>ideal < n\<close> show ?thesis
    by (simp add: Conciseness_spec_def diff_divide_distrib min_def max_def)
qed

lemma Conciseness_spec_mono:
  assumes "0 < ideal" and "ideal \<le> m" and "m \<le> n"
  shows "Conciseness_spec ideal n \<le> Conciseness_spec ideal m"
proof -
  from assms have "real_of_int m / real_of_int ideal \<le> real_of_int n / real_of_int ideal"
    by (simp add: divide_right_mono)
  with assms show ?thesis
    by (simp add: Conciseness_spec_beyond max_def)
qed

lemma Conciseness_spec_strict:
  assumes "0 < ideal" and "ideal \<le> m" and "m < n" and "0 < Conciseness_spec ideal m"
  shows "Conciseness_spec ideal n < Conciseness_spec ideal m"
proof -
  from assms have "real_of_int m / real_of_int ideal < real_of_int n / real_of_int ideal"
    by (simp add: divide_strict_right_mono)
  with assms show ?thesis
    by (simp add: Conciseness_spec_beyond max_def split: if_splits)
qed

lemma Conciseness_spec_floor:
  assumes "0 < ideal"
  shows "0 \<le> Conciseness_spec ideal n" and "2 * ideal \<le> n \<Longrightarrow> Conciseness_spec ideal n = 0"
proof -
  show "0 \<le> Conciseness_spec ideal n"
    by (simp add: Conciseness_spec_def)
  assume "2 * ideal \<le> n"
  with assms have "ideal \<le> n" and "real_of_int (2 * ideal) \<le> real_of_int n"
    by simp_all
  with assms have "2 \<le> real_of_int n / real_of_int ideal"
    by (simp add: le_divide_eq)
  with assms \<open>ideal \<le> n\<close> show "Conciseness_spec ideal n = 0"
    by (simp add: Conciseness_spec_beyond)
qed

subsection \<open>The model caller\<close>


section \<open>The claims\<close>

subsection \<open>C1: Accuracy without ground truth\<close>

text \<open>
  C1 says that Accuracy is "not applicable" also when the expected answer splits into no
  token. The code does not do that: a whitespace-only expected answer is a non-empty
  string, so it passes the first test, and the guard on the empty keyword list returns the
  number 0.0.
\<close>

theorem Accuracy_whitespace_only_counterexample:
  "py_split '' '' = [] \<and> Accuracy_score ''Paris'' (Some '' '') = Inr (Some 0)
   \<and> Accuracy_score ''Paris'' (Some '' '') \<noteq> Inr None"
  by code_simp

text \<open>
  C1, as the code has it: Accuracy returns \<^verbatim>\<open>None\<close> when the expected answer is absent
  or the empty string; for a non-empty expected answer whose whitespace split is empty it
  returns the number 0.0; and it raises no exception on any input, so no division by zero
  occurs.
\<close>

theorem Accuracy_not_applicable:
  "Accuracy_score output None = Inr None \<and>
   Accuracy_score output (Some []) = Inr None \<and>
   (\<forall>ea. ea \<noteq> [] \<and> py_split ea = [] \<longrightarrow> Accuracy_score output (Some ea) = Inr (Some 0)) \<and>
   (\<forall>e. Accuracy_score output expected_answer \<noteq> Inl e)"
proof (intro conjI allI impI)
  show "Accuracy_score output None = Inr None"
    by (simp add: Accuracy_score_def)
  show "Accuracy_score output (Some []) = Inr None"
    by (simp add: Accuracy_score_def)
next
  fix ea :: string
  assume "ea \<noteq> [] \<and> py_split ea = []"
  then show "Accuracy_score output (Some ea) = Inr (Some 0)"
    by (simp add: Accuracy_score_Some Accuracy_fraction_def)
next
  fix e
  show "Accuracy_score output expected_answer \<noteq> Inl e"
  proof (cases expected_answer)
    case None
    then show ?thesis by (simp add: Accuracy_score_def)
  next
    case (Some ea)
    then show ?thesis
      by (cases "ea = []") (simp_all add: Accuracy_score_Some, simp add: Accuracy_score_def)
  qed
qed

theorem Accuracy_not_applicable_witness:
  "''  '' \<noteq> [] \<and> py_split ''  '' = [] \<and> Accuracy_score ''Paris'' (Some ''  '') = Inr (Some 0)"
proof -
  have h: "''  '' \<noteq> [] \<and> py_split ''  '' = []"
    by (simp add: py_split_def isspace_ch_def)
  with Accuracy_not_applicable [of "''Paris''"] show ?thesis by blast
qed

subsection \<open>C2: the ideal length of Conciseness is not validated\<close>

text \<open>
  C2 says that an ideal length of 0 or less is refused when the metric is constructed. The
  constructor stores whatever it is given: 0 is accepted and makes the scoring of a
  non-empty output divide by zero, and \<open>-3\<close> is accepted and gives scores above 1.
\<close>

theorem Conciseness_init_counterexample:
  "Conciseness_init ''conciseness'' 0 = Inr \<lparr>metric_name = ''conciseness'', ideal_length = 0\<rparr> \<and>
   Conciseness_score \<lparr>metric_name = ''conciseness'', ideal_length = 0\<rparr> ''Paris.'' = Inl ZeroDivisionError \<and>
   Conciseness_init ''conciseness'' (- 3) = Inr \<lparr>metric_name = ''conciseness'', ideal_length = - 3\<rparr> \<and>
   Conciseness_score \<lparr>metric_name = ''conciseness'', ideal_length = - 3\<rparr> ''Paris.'' = Inr 4"
  by (simp add: Conciseness_init_def Conciseness_score_def py_len_def py_truediv_def)

text \<open>
  C2, as the code has it: constructing a Conciseness metric succeeds for every ideal
  length and stores the value unchanged, raising nothing; the stored value is used by the
  scoring, where an ideal length of 0 makes every non-empty output raise
  \<^verbatim>\<open>ZeroDivisionError\<close>.
\<close>

theorem Conciseness_init_accepts_any:
  "Conciseness_init name ideal = Inr \<lparr>metric_name = name, ideal_length = ideal\<rparr> \<and>
   (\<forall>e. Conciseness_init name ideal \<noteq> Inl e) \<and>
   Conciseness_score \<lparr>metric_name = name, ideal_length = 0\<rparr> (c # cs) = Inl ZeroDivisionError"
  by (simp add: Conciseness_init_def Conciseness_score_def py_len_def py_truediv_def)

subsection \<open>C3: ResponseQuality is the sum of four increments\<close>

text \<open>
  C3: for every output and optional reference, ResponseQuality returns the sum of the four
  independent increments of 0.25 of \<open>ResponseQuality_spec\<close> (length above 50; a reference
  word occurring, case-insensitively, in the output; a full stop and five spaces; an
  upper-case first character), and \<^verbatim>\<open>ResponseQuality("Paris.")\<close> with no reference is 0.25.
\<close>

theorem ResponseQuality_four_increments:
  "ResponseQuality_score output reference = Inr (ResponseQuality_spec output reference) \<and>
   ResponseQuality_score ''Paris.'' None = Inr 0.25"
proof
  show "ResponseQuality_score output reference = Inr (ResponseQuality_spec output reference)"
    by (rule ResponseQuality_score_spec)
  show "ResponseQuality_score ''Paris.'' None = Inr 0.25"
    by code_simp
qed

subsection \<open>C4: Relevance is the clamped overlap ratio\<close>

text \<open>
  C4: for every output and input, Relevance returns the number of \<open>Relevance_spec\<close>: the
  size of the intersection of the two lowercased word sets over the size of the input's
  word set, at most 1, and 0 when the input is absent or has an empty word set.
\<close>

theorem Relevance_overlap_ratio:
  "Relevance_score output input = Inr (Relevance_spec output input) \<and>
   Relevance_score output None = Inr 0"
  by (simp add: Relevance_score_spec) (simp add: Relevance_spec_def)

subsection \<open>C5: Conciseness and its monotonicity\<close>

text \<open>
  C5: Conciseness returns 1 up to the ideal length and
  \<open>max 0 (1 - min ((n - ideal) / ideal) 1)\<close> beyond it, for every ideal length other
  than 0. For a positive ideal length (the default is 200) and outputs beyond it, the
  score never increases with the length of the output, it strictly decreases as long as
  it is positive, it is 0 from twice the ideal length on and it is never negative.
\<close>

theorem Conciseness_score_formula:
  "(ideal_length self \<noteq> 0 \<longrightarrow>
      Conciseness_score self output = Inr (Conciseness_spec (ideal_length self) (py_len output))) \<and>
   (0 < ideal_length self \<longrightarrow>
      (\<forall>out1 out2.
         ideal_length self \<le> py_len out1 \<and> py_len out1 \<le> py_len out2 \<longrightarrow>
         (\<exists>v1 v2. Conciseness_score self out1 = Inr v1 \<and> Conciseness_score self out2 = Inr v2 \<and>
            v2 \<le> v1)) \<and>
      (\<forall>out1 out2.
         ideal_length self \<le> py_len out1 \<and> py_len out1 < py_len out2 \<longrightarrow>
         (\<exists>v1 v2. Conciseness_score self out1 = Inr v1 \<and> Conciseness_score self out2 = Inr v2 \<and>
            (0 < v1 \<longrightarrow> v2 < v1))) \<and>
      (\<forall>out. 2 * ideal_length self \<le> py_len out \<longrightarrow> Conciseness_score self out = Inr 0) \<and>
      (\<forall>out. \<exists>v. Conciseness_score self out = Inr v \<and> 0 \<le> v))"
proof (intro conjI impI allI)
  assume "ideal_length self \<noteq> 0"
  then show "Conciseness_score self output = Inr (Conciseness_spec (ideal_length self) (py_len output))"
    by (rule Conciseness_score_spec)
next
  fix out1 out2 :: string
  assume pos: "0 < ideal_length self"
    and "ideal_length self \<le> py_len out1 \<and> py_len out1 \<le> py_len out2"
  then have "Conciseness_spec (ideal_length self) (py_len out2)
      \<le> Conciseness_spec (ideal_length self) (py_len out1)"
    by (simp add: Conciseness_spec_mono)
  with pos show "\<exists>v1 v2. Conciseness_score self out1 = Inr v1 \<and>
      Conciseness_score self out2 = Inr v2 \<and> v2 \<le> v1"
    by (simp add: Conciseness_score_spec)
next
  fix out1 out2 :: string
  assume pos: "0 < ideal_length self"
    and len: "ideal_length self \<le> py_len out1 \<and> py_len out1 < py_len out2"
  have "Conciseness_spec (ideal_length self) (py_len out2)
      < Conciseness_spec (ideal_length self) (py_len out1)"
    if "0 < Conciseness_spec (ideal_length self) (py_len out1)"
    using pos len that by (simp add: Conciseness_spec_strict)
  with pos show "\<exists>v1 v2. Conciseness_score self out1 = Inr v1 \<and>
      Conciseness_score self out2 = Inr v2 \<and> (0 < v1 \<longrightarrow> v2 < v1)"
    by (simp add: Conciseness_score_spec)
next
  fix out :: string
  assume "0 < ideal_length self" and "2 * ideal_length self \<le> py_len out"
  then show "Conciseness_score self out = Inr 0"
    by (simp add: Conciseness_score_spec Conciseness_spec_floor)
next
  fix out :: string
  assume "0 < ideal_length self"
  then show "\<exists>v. Conciseness_score self out = Inr v \<and> 0 \<le> v"
    by (simp add: Conciseness_score_spec Conciseness_spec_floor)
qed

text \<open>The default metric, of ideal length 200, on outputs of 6, 250, 300 and 400 characters.\<close>

theorem Conciseness_score_formula_witness:
  "ideal_length \<lparr>metric_name = ''conciseness'', ideal_length = 200\<rparr> \<noteq> 0 \<and>
   0 < ideal_length \<lparr>metric_name = ''conciseness'', ideal_length = 200\<rparr> \<and>
   Conciseness_default = Inr \<lparr>metric_name = ''conciseness'', ideal_length = 200\<rparr> \<and>
   Conciseness_score \<lparr>metric_name = ''conciseness'', ideal_length = 200\<rparr> ''Paris.'' = Inr 1 \<and>
   ideal_length \<lparr>metric_name = ''conciseness'', ideal_length = 200\<rparr>
     \<le> py_len (replicate 250 (CHR ''a'')) \<and>
   py_len (replicate 250 (CHR ''a'')) < py_len (replicate 300 (CHR ''a'')) \<and>
   Conciseness_score \<lparr>metric_name = ''conciseness'', ideal_length = 200\<rparr>
     (replicate 250 (CHR ''a'')) = Inr (3 / 4) \<and>
   Conciseness_score \<lparr>metric_name = ''conciseness'', ideal_length = 200\<rparr>
     (replicate 300 (CHR ''a'')) = Inr (1 / 2) \<and>
   2 * ideal_length \<lparr>metric_name = ''conciseness'', ideal_length = 200\<rparr>
     \<le> py_len (replicate 400 (CHR ''a'')) \<and>
   Conciseness_score \<lparr>metric_name = ''conciseness'', ideal_length = 200\<rparr>
     (replicate 400 (CHR ''a'')) = Inr 0 \<and>
   (\<exists>v1 v2.
      Conciseness_score \<lparr>metric_name = ''conciseness'', ideal_length = 200\<rparr>
        (replicate 250 (CHR ''a'')) = Inr v1 \<and>
      Conciseness_score \<lparr>metric_name = ''conciseness'', ideal_length = 200\<rparr>
        (replicate 300 (CHR ''a'')) = Inr v2 \<and> v2 \<le> v1)"
proof -
  let ?c = "\<lparr>metric_name = ''conciseness'', ideal_length = 200\<rparr>"
  have h: "ideal_length ?c \<noteq> 0" "0 < ideal_length ?c"
    by simp_all
  have d: "Conciseness_default = Inr ?c"
    by (simp add: Conciseness_default_def Conciseness_init_def)
  have l: "ideal_length ?c \<le> py_len (replicate 250 (CHR ''a''))"
    "py_len (replicate 250 (CHR ''a'')) < py_len (replicate 300 (CHR ''a''))"
    "2 * ideal_length ?c \<le> py_len (replicate 400 (CHR ''a''))"
    by (simp_all add: py_len_def)
  have f: "Conciseness_score ?c out = Inr (Conciseness_spec (ideal_length ?c) (py_len out))" for out
    using Conciseness_score_formula [of ?c out, THEN conjunct1] h(1) by (rule mp)
  have p: "Conciseness_score ?c ''Paris.'' = Inr 1"
    unfolding f by (simp add: Conciseness_spec_def py_len_def)
  have a: "Conciseness_score ?c (replicate 250 (CHR ''a'')) = Inr (3 / 4)"
    unfolding f by (simp add: Conciseness_spec_def py_len_def)
  have b: "Conciseness_score ?c (replicate 300 (CHR ''a'')) = Inr (1 / 2)"
    unfolding f by (simp add: Conciseness_spec_def py_len_def)
  note g = Conciseness_score_formula [of ?c "[]", THEN conjunct2, THEN mp, OF h(2)]
  have z: "Conciseness_score ?c (replicate 400 (CHR ''a'')) = Inr 0"
    using g [THEN conjunct2, THEN conjunct2, THEN conjunct1, THEN spec,
        of "replicate 400 (CHR ''a'')"] l(3)
    by (rule mp)
  have l12: "ideal_length ?c \<le> py_len (replicate 250 (CHR ''a'')) \<and>
      py_len (replicate 250 (CHR ''a'')) \<le> py_len (replicate 300 (CHR ''a''))"
    using l(1) l(2) by simp
  have m: "\<exists>v1 v2. Conciseness_score ?c (replicate 250 (CHR ''a'')) = Inr v1 \<and>
      Conciseness_score ?c (replicate 300 (CHR ''a'')) = Inr v2 \<and> v2 \<le> v1"
    using g [THEN conjunct1, THEN spec, THEN spec,
        of "replicate 250 (CHR ''a'')" "replicate 300 (CHR ''a'')"] l12
    by (rule mp)
  show ?thesis
    using h d l p a b z m by (intro conjI) assumption+
qed

subsection \<open>C6: the extreme values of Relevance\<close>

text \<open>
  C6 says that Relevance is 1.0 whenever the output's word set includes the input's. An
  input with no word at all, as a single space, has the empty word set, which every word
  set includes, and its score is 0.0.
\<close>

theorem Relevance_superset_counterexample:
  "word_set '' '' \<subseteq> word_set ''Paris'' \<and> Relevance_score ''Paris'' (Some '' '') = Inr 0
   \<and> Relevance_score ''Paris'' (Some '' '') \<noteq> Inr 1"
  by code_simp

text \<open>
  C6, as the code has it: Relevance is 0 for the empty input, 1 when the input has at
  least one word and the output's word set includes the input's, and 0 when the input has
  no word.
\<close>

theorem Relevance_zero_and_one:
  "Relevance_score output (Some []) = Inr 0 \<and>
   (\<forall>inp. word_set inp \<noteq> {} \<and> word_set inp \<subseteq> word_set output \<longrightarrow>
      Relevance_score output (Some inp) = Inr 1) \<and>
   (\<forall>inp. word_set inp = {} \<longrightarrow> Relevance_score output (Some inp) = Inr 0)"
proof (intro conjI allI impI)
  show "Relevance_score output (Some []) = Inr 0"
    by (simp add: Relevance_score_def)
next
  fix inp
  assume h: "word_set inp \<noteq> {} \<and> word_set inp \<subseteq> word_set output"
  then have "word_set inp \<inter> word_set output = word_set inp" by auto
  moreover from h have "card (word_set inp) \<noteq> 0" by (simp add: finite_word_set)
  ultimately show "Relevance_score output (Some inp) = Inr 1"
    using h by (simp add: Relevance_score_spec Relevance_spec_def)
next
  fix inp
  assume "word_set inp = {}"
  then show "Relevance_score output (Some inp) = Inr 0"
    by (simp add: Relevance_score_spec Relevance_spec_def)
qed

theorem Relevance_zero_and_one_witness:
  "word_set ''capital France'' \<noteq> {} \<and>
   word_set ''capital France'' \<subseteq> word_set ''The capital of France is Paris'' \<and>
   Relevance_score ''The capital of France is Paris'' (Some ''capital France'') = Inr 1 \<and>
   word_set '' '' = {} \<and>
   Relevance_score ''The capital of France is Paris'' (Some '' '') = Inr 0"
proof -
  have h: "word_set ''capital France'' \<noteq> {} \<and>
      word_set ''capital France'' \<subseteq> word_set ''The capital of France is Paris''"
    by code_simp
  have e: "word_set '' '' = {}"
    by code_simp
  from h e Relevance_zero_and_one [of "''The capital of France is Paris''"]
  show ?thesis by blast
qed

subsection \<open>C7: the value of Accuracy\<close>

text \<open>
  C7: Accuracy returns \<^verbatim>\<open>None\<close> exactly when the expected answer is \<^verbatim>\<open>None\<close> or the empty
  string; for every other expected answer it returns a number between 0 and 1, the
  fraction \<open>Accuracy_fraction\<close> of the expected tokens found in the lowercased output; and
  \<^verbatim>\<open>Accuracy(output="4", expectedAnswer="4")\<close> is 1.0.
\<close>

theorem Accuracy_score_value:
  "(Accuracy_score output expected_answer = Inr None \<longleftrightarrow>
      expected_answer = None \<or> expected_answer = Some []) \<and>
   (\<forall>ea. ea \<noteq> [] \<longrightarrow>
      (\<exists>v. Accuracy_score output (Some ea) = Inr (Some v) \<and> 0 \<le> v \<and> v \<le> 1 \<and>
           v = Accuracy_fraction output ea)) \<and>
   Accuracy_score ''4'' (Some ''4'') = Inr (Some 1)"
proof (intro conjI allI impI)
  show "Accuracy_score output expected_answer = Inr None \<longleftrightarrow>
      expected_answer = None \<or> expected_answer = Some []"
  proof (cases expected_answer)
    case None
    then show ?thesis by (simp add: Accuracy_score_def)
  next
    case (Some ea)
    then show ?thesis
      by (cases "ea = []") (simp_all add: Accuracy_score_Some, simp add: Accuracy_score_def)
  qed
next
  fix ea :: string
  assume "ea \<noteq> []"
  then show "\<exists>v. Accuracy_score output (Some ea) = Inr (Some v) \<and> 0 \<le> v \<and> v \<le> 1 \<and>
           v = Accuracy_fraction output ea"
    using Accuracy_fraction_range [of "output" ea] by (simp add: Accuracy_score_Some)
next
  show "Accuracy_score ''4'' (Some ''4'') = Inr (Some 1)"
    by code_simp
qed

theorem Accuracy_score_value_witness:
  "''Paris'' \<noteq> [] \<and>
   (\<exists>v. Accuracy_score ''The capital is Paris'' (Some ''Paris'') = Inr (Some v) \<and> 0 \<le> v \<and> v \<le> 1
     \<and> v = Accuracy_fraction ''The capital is Paris'' ''Paris'')"
proof -
  have h: "''Paris'' \<noteq> []" by simp
  from Accuracy_score_value [of "''The capital is Paris''" None] h show ?thesis by blast
qed

subsection \<open>C8: the range of ResponseQuality\<close>

text \<open>
  C8: for every output, the empty one included, and every reference, ResponseQuality
  returns a number between 0 and 1 and raises nothing; for the empty output it returns
  0: the first character is read only when there is one.
\<close>

theorem ResponseQuality_range:
  "(\<exists>v. ResponseQuality_score output reference = Inr v \<and> 0 \<le> v \<and> v \<le> 1) \<and>
   ResponseQuality_score [] reference = Inr 0"
  using ResponseQuality_spec_range [of "output" reference]
  by (simp add: ResponseQuality_score_spec ResponseQuality_spec_empty)

subsection \<open>C9: the request and the answer of the model caller\<close>



subsection \<open>C10: the health check never raises\<close>

text \<open>
  C10: whatever the GET request does, \<open>check_opik_health\<close> returns a boolean and raises
  nothing: \<^verbatim>\<open>True\<close> exactly when the request gives a response of status 200, \<^verbatim>\<open>False\<close>
  exactly when the request raises or gives a response of another status.
\<close>

theorem check_opik_health_total:
  "(check_opik_health requests_get = Inr True \<longleftrightarrow>
      (\<exists>response. requests_get (OPIK_URL @ ''/health'') 5 = Inr response \<and>
         status_code response = 200)) \<and>
   (check_opik_health requests_get = Inr False \<longleftrightarrow>
      (\<exists>e. requests_get (OPIK_URL @ ''/health'') 5 = Inl e) \<or>
      (\<exists>response. requests_get (OPIK_URL @ ''/health'') 5 = Inr response \<and>
         status_code response \<noteq> 200)) \<and>
   (\<forall>e. check_opik_health requests_get \<noteq> Inl e)"
  by (cases "requests_get (OPIK_URL @ ''/health'') 5") (auto simp: check_opik_health_def)

end
